theory Spec2Isabelle
  imports Main "HOL-Library.Word" "HOL-Library.Char_ord" "HOL-Library.List_Lexorder"
begin

unbundle bit_operations_syntax

section \<open>Go values used by the hotellook client\<close>

text \<open>
  A Go \<open>string\<close> is a sequence of bytes, which is what \<^typ>\<open>string\<close> is here.
  Go's \<open>int\<close> is taken at its 64-bit width; \<open>byte\<close> is \<open>uint8\<close>.
\<close>

type_synonym go_int = "64 word"
type_synonym byte = "8 word"
type_synonym u32 = "32 word"

text \<open>
  A value of type \<open>map[string]string\<close> holds every key once, and \<open>range\<close> visits the
  entries in an order the language leaves open. It is a list of entries with distinct keys;
  the order of the list is the order in which \<open>range\<close> visits them. A \<open>nil\<close> map is
  \<^term>\<open>None\<close> where the code tells it from an empty one.
\<close>

type_synonym 'v go_map = "(string \<times> 'v) list"

text \<open>\<open>m[k]\<close>: the value stored under \<open>k\<close>, the zero value \<open>z\<close> of the type when there is none.\<close>

definition map_index :: "'v \<Rightarrow> 'v go_map \<Rightarrow> string \<Rightarrow> 'v" where
  "map_index z m k = (case map_of m k of None \<Rightarrow> z | Some v \<Rightarrow> v)"

text \<open>\<open>m[k] = v\<close>: overwrite the entry of \<open>k\<close>, or add one.\<close>

fun map_assign :: "string \<Rightarrow> 'v \<Rightarrow> 'v go_map \<Rightarrow> 'v go_map" where
  "map_assign k v [] = [(k, v)]"
| "map_assign k v (p # ps) = (if fst p = k then (k, v) # ps else p # map_assign k v ps)"

section \<open>The standard library, as far as the client calls it\<close>

subsection \<open>strconv\<close>

definition digit_char :: "nat \<Rightarrow> char" where
  "digit_char d = ''0123456789'' ! d"

text \<open>The decimal digits of a number that is not negative.\<close>

function utoa :: "int \<Rightarrow> string" where
  "utoa n =
     (if n < 10 then [digit_char (nat n)]
      else utoa (n div 10) @ [digit_char (nat (n mod 10))])"
  by pat_completeness auto
termination
  by (relation "measure nat") auto

declare utoa.simps [simp del]

text \<open>\<open>strconv.Itoa\<close>: the decimal form, with a leading minus sign for a negative value.\<close>

definition Itoa_int :: "int \<Rightarrow> string" where
  "Itoa_int i = (if i < 0 then CHR ''-'' # utoa (- i) else utoa i)"

definition Itoa :: "go_int \<Rightarrow> string" where
  "Itoa i = Itoa_int (sint i)"

definition is_digit :: "char \<Rightarrow> bool" where
  "is_digit c = (CHR ''0'' \<le> c \<and> c \<le> CHR ''9'')"

datatype num_error = ErrSyntax | ErrRange

text \<open>
  \<open>strconv.ParseUint(s, 10, 64)\<close> reads the bytes from the left. A byte that is no
  decimal digit ends it with 0 and a syntax error; a digit that takes the number past the
  largest \<open>uint64\<close> ends it with that largest value and a range error, whatever follows.
  The number read so far never exceeds that value, so it is an \<^typ>\<open>int\<close> here; the
  test of the product is \<open>n >= cutoff\<close> with \<open>cutoff = maxUint64/10 + 1\<close>.
\<close>

definition maxUint64 :: int where
  "maxUint64 = 2 ^ 64 - 1"

fun ParseUint_loop :: "int \<Rightarrow> string \<Rightarrow> int \<times> num_error option" where
  "ParseUint_loop n [] = (n, None)"
| "ParseUint_loop n (c # cs) =
     (if \<not> is_digit c then (0, Some ErrSyntax)
      else if n \<ge> maxUint64 div 10 + 1 then (maxUint64, Some ErrRange)
      else (let n1 = n * 10 + (of_char c - 48) in
            if n1 > maxUint64 then (maxUint64, Some ErrRange)
            else ParseUint_loop n1 cs))"

definition ParseUint :: "string \<Rightarrow> int \<times> num_error option" where
  "ParseUint s = (if s = [] then (0, Some ErrSyntax) else ParseUint_loop 0 s)"

text \<open>
  \<open>strconv.ParseInt(s, 10, 0)\<close>: an optional sign, then \<open>ParseUint\<close>. A syntax error
  gives 0; a magnitude out of the range of \<open>int\<close> gives the nearest bound and a range
  error.
\<close>

definition ParseInt :: "string \<Rightarrow> go_int \<times> num_error option" where
  "ParseInt s =
     (if s = [] then (0, Some ErrSyntax)
      else
        (let (neg, t) = (if hd s = CHR ''+'' then (False, tl s)
                         else if hd s = CHR ''-'' then (True, tl s)
                         else (False, s))
         in case ParseUint t of
              (un, Some ErrSyntax) \<Rightarrow> (0, Some ErrSyntax)
            | (un, _) \<Rightarrow>
                if \<not> neg \<and> un \<ge> 2 ^ 63 then (word_of_int (2 ^ 63 - 1), Some ErrRange)
                else if neg \<and> un > 2 ^ 63 then (word_of_int (- (2 ^ 63)), Some ErrRange)
                else (if neg then word_of_int (- un) else word_of_int un, None)))"

text \<open>
  \<open>strconv.Atoi\<close> is \<open>ParseInt(s, 10, 0)\<close>; the shortcut that later versions of the
  library take for a string of fewer than 19 bytes returns the same value and the same
  kind of error.
\<close>

definition Atoi :: "string \<Rightarrow> go_int \<times> num_error option" where
  "Atoi s = ParseInt s"

subsection \<open>sort\<close>

text \<open>
  \<open>sort.StringSlice.Sort\<close> orders strings bytewise, a proper prefix first: the order of
  \<^typ>\<open>string\<close> as a list of \<^typ>\<open>char\<close>. A list has one sorted arrangement, so the
  algorithm behind it does not matter.
\<close>

definition StringSlice_Sort :: "string list \<Rightarrow> string list" where
  "StringSlice_Sort keys = sort keys"

subsection \<open>net/url\<close>

definition shouldEscape :: "char \<Rightarrow> bool" where
  "shouldEscape c =
     (if (CHR ''a'' \<le> c \<and> c \<le> CHR ''z'') \<or> (CHR ''A'' \<le> c \<and> c \<le> CHR ''Z'')
          \<or> (CHR ''0'' \<le> c \<and> c \<le> CHR ''9'') then False
      else if c = CHR ''-'' \<or> c = CHR ''_'' \<or> c = CHR ''.'' \<or> c = CHR ''~'' then False
      else True)"

definition upperhex :: string where
  "upperhex = ''0123456789ABCDEF''"

definition escape_char :: "char \<Rightarrow> string" where
  "escape_char c =
     (if shouldEscape c then
        (if c = CHR '' '' then ''+''
         else [CHR ''%'', upperhex ! (of_char c div 16), upperhex ! (of_char c mod 16)])
      else [c])"

text \<open>\<open>url.QueryEscape\<close>.\<close>

definition QueryEscape :: "string \<Rightarrow> string" where
  "QueryEscape s = concat (map escape_char s)"

text \<open>\<open>url.Values\<close> is \<open>map[string][]string\<close>.\<close>

type_synonym Values = "string list go_map"

text \<open>\<open>Values.Add\<close>: \<open>v[key] = append(v[key], value)\<close>.\<close>

definition Values_Add :: "string \<Rightarrow> string \<Rightarrow> Values \<Rightarrow> Values" where
  "Values_Add key val v = map_assign key (map_index [] v key @ [val]) v"

text \<open>
  \<open>Values.Encode\<close>: the keys sorted, and for each key its values in their order, every
  pair written as \<open>key=value\<close> with both sides escaped, an ampersand before every pair
  but the first of the buffer.
\<close>

definition Encode_pair :: "string \<Rightarrow> string \<Rightarrow> string \<Rightarrow> string" where
  "Encode_pair keyEscaped buf val =
     (if buf \<noteq> [] then buf @ ''&'' else buf) @ keyEscaped @ ''='' @ QueryEscape val"

definition Encode_key :: "Values \<Rightarrow> string \<Rightarrow> string \<Rightarrow> string" where
  "Encode_key v buf k = foldl (Encode_pair (QueryEscape k)) buf (map_index [] v k)"

definition Values_Encode :: "Values \<Rightarrow> string" where
  "Values_Encode v = (if v = [] then [] else foldl (Encode_key v) [] (sort (map fst v)))"

subsection \<open>crypto/md5 and encoding/hex\<close>

definition RotateLeft32 :: "u32 \<Rightarrow> nat \<Rightarrow> u32" where
  "RotateLeft32 x s = push_bit s x OR drop_bit (32 - s) x"

definition md5_K :: "u32 list" where
  "md5_K = [
    0xd76aa478, 0xe8c7b756, 0x242070db, 0xc1bdceee, 0xf57c0faf, 0x4787c62a, 0xa8304613, 0xfd469501,
    0x698098d8, 0x8b44f7af, 0xffff5bb1, 0x895cd7be, 0x6b901122, 0xfd987193, 0xa679438e, 0x49b40821,
    0xf61e2562, 0xc040b340, 0x265e5a51, 0xe9b6c7aa, 0xd62f105d, 0x02441453, 0xd8a1e681, 0xe7d3fbc8,
    0x21e1cde6, 0xc33707d6, 0xf4d50d87, 0x455a14ed, 0xa9e3e905, 0xfcefa3f8, 0x676f02d9, 0x8d2a4c8a,
    0xfffa3942, 0x8771f681, 0x6d9d6122, 0xfde5380c, 0xa4beea44, 0x4bdecfa9, 0xf6bb4b60, 0xbebfbc70,
    0x289b7ec6, 0xeaa127fa, 0xd4ef3085, 0x04881d05, 0xd9d4d039, 0xe6db99e5, 0x1fa27cf8, 0xc4ac5665,
    0xf4292244, 0x432aff97, 0xab9423a7, 0xfc93a039, 0x655b59c3, 0x8f0ccc92, 0xffeff47d, 0x85845dd1,
    0x6fa87e4f, 0xfe2ce6e0, 0xa3014314, 0x4e0811a1, 0xf7537e82, 0xbd3af235, 0x2ad7d2bb, 0xeb86d391]"

definition md5_S :: "nat list" where
  "md5_S = [7, 12, 17, 22, 7, 12, 17, 22, 7, 12, 17, 22, 7, 12, 17, 22,
            5, 9, 14, 20, 5, 9, 14, 20, 5, 9, 14, 20, 5, 9, 14, 20,
            4, 11, 16, 23, 4, 11, 16, 23, 4, 11, 16, 23, 4, 11, 16, 23,
            6, 10, 15, 21, 6, 10, 15, 21, 6, 10, 15, 21, 6, 10, 15, 21]"

definition md5_F :: "nat \<Rightarrow> u32 \<Rightarrow> u32 \<Rightarrow> u32 \<Rightarrow> u32" where
  "md5_F i b c d =
     (if i < 16 then ((c XOR d) AND b) XOR d
      else if i < 32 then ((b XOR c) AND d) XOR c
      else if i < 48 then b XOR c XOR d
      else c XOR (b OR NOT d))"

definition md5_G :: "nat \<Rightarrow> nat" where
  "md5_G i =
     (if i < 16 then i
      else if i < 32 then (5 * i + 1) mod 16
      else if i < 48 then (3 * i + 5) mod 16
      else (7 * i) mod 16)"

type_synonym md5_state = "u32 \<times> u32 \<times> u32 \<times> u32"

definition md5_step :: "u32 list \<Rightarrow> nat \<Rightarrow> md5_state \<Rightarrow> md5_state" where
  "md5_step x i = (\<lambda>(a, b, c, d).
     (d, b + RotateLeft32 (md5_F i b c d + a + x ! md5_G i + md5_K ! i) (md5_S ! i), b, c))"

fun le_u32 :: "byte list \<Rightarrow> u32" where
  "le_u32 (b0 # b1 # b2 # b3 # _) =
     ucast b0 OR push_bit 8 (ucast b1) OR push_bit 16 (ucast b2) OR push_bit 24 (ucast b3)"
| "le_u32 _ = 0"

definition block_words :: "byte list \<Rightarrow> u32 list" where
  "block_words q = map (\<lambda>j. le_u32 (drop (4 * j) q)) [0..<16]"

definition md5_block :: "md5_state \<Rightarrow> byte list \<Rightarrow> md5_state" where
  "md5_block s q =
     (case s of (aa, bb, cc, dd) \<Rightarrow>
        case fold (md5_step (block_words q)) [0..<64] s of (a, b, c, d) \<Rightarrow>
          (a + aa, b + bb, c + cc, d + dd))"

fun md5_blocks :: "nat \<Rightarrow> md5_state \<Rightarrow> byte list \<Rightarrow> md5_state" where
  "md5_blocks 0 s p = s"
| "md5_blocks (Suc n) s p = md5_blocks n (md5_block s (take 64 p)) (drop 64 p)"

definition put_le32 :: "u32 \<Rightarrow> byte list" where
  "put_le32 w = map (\<lambda>j. ucast (drop_bit (8 * j) w)) [0..<4]"

definition put_le64 :: "64 word \<Rightarrow> byte list" where
  "put_le64 w = map (\<lambda>j. ucast (drop_bit (8 * j) w)) [0..<8]"

text \<open>
  The padding of the message: one byte \<open>0x80\<close>, zero bytes up to 56 modulo 64, and the
  length of the message in bits as a 64-bit little-endian number.
\<close>

definition md5_pad :: "byte list \<Rightarrow> byte list" where
  "md5_pad p = p @ [0x80] @ replicate ((119 - length p mod 64) mod 64) 0
                 @ put_le64 (push_bit 3 (of_nat (length p)))"

definition md5_init :: md5_state where
  "md5_init = (0x67452301, 0xefcdab89, 0x98badcfe, 0x10325476)"

text \<open>\<open>h := md5.New(); h.Write(p); h.Sum(nil)\<close>: the 16 bytes of the digest.\<close>

definition md5_Sum :: "byte list \<Rightarrow> byte list" where
  "md5_Sum p =
     (let m = md5_pad p in
      case md5_blocks (length m div 64) md5_init m of (a, b, c, d) \<Rightarrow>
        concat (map put_le32 [a, b, c, d]))"

definition hextable :: string where
  "hextable = ''0123456789abcdef''"

text \<open>\<open>hex.EncodeToString\<close>: two lower-case digits for every byte.\<close>

definition EncodeToString :: "byte list \<Rightarrow> string" where
  "EncodeToString src =
     concat (map (\<lambda>v. [hextable ! unat (drop_bit 4 v), hextable ! unat (v AND 0x0f)]) src)"

text \<open>The conversion \<open>[]byte(s)\<close>.\<close>

definition bytes_of :: "string \<Rightarrow> byte list" where
  "bytes_of s = map of_char s"

subsection \<open>net/http\<close>

text \<open>
  A response, as far as the client reads it: the header and what \<open>ioutil.ReadAll\<close>
  returns for the body.
\<close>

record Response =
  Header :: "string list go_map"
  Body :: string

text \<open>\<open>Header.Get\<close>, for a key written in its canonical form: the first value, or \<open>""\<close>.\<close>

definition Header_Get :: "string list go_map \<Rightarrow> string \<Rightarrow> string" where
  "Header_Get h key = (case map_index [] h key of [] \<Rightarrow> [] | x # _ \<Rightarrow> x)"

section \<open>The client\<close>

text \<open>
  The struct \<open>API\<close>. Its mutex and its \<open>*http.Client\<close>, which no method reads or sets,
  are left out.
\<close>

record API =
  token :: string
  marker :: go_int
  remains :: go_int
  limit :: go_int

text \<open>\<open>NewAPI\<close> returns a pointer: \<^term>\<open>None\<close> is \<open>nil\<close>.\<close>

definition NewAPI :: "go_int \<Rightarrow> API option" where
  "NewAPI m =
     (if m = 0 then None
      else Some \<lparr>token = [], marker = m, remains = 0, limit = 0\<rparr>)"

definition SetToken :: "string \<Rightarrow> API \<Rightarrow> API" where
  "SetToken t this = this\<lparr>token := t\<rparr>"

definition RequestsRemains :: "API \<Rightarrow> go_int" where
  "RequestsRemains this = 0"

definition RequestsLimit :: "API \<Rightarrow> go_int" where
  "RequestsLimit this = 0"

text \<open>\<open>updateRemains\<close> keeps the values of \<open>Atoi\<close> and drops its errors.\<close>

definition updateRemains :: "Response \<Rightarrow> API \<Rightarrow> API" where
  "updateRemains r this =
     this\<lparr>remains := fst (Atoi (Header_Get (Header r) ''X-Ratelimit-Remaining'')),
          limit := fst (Atoi (Header_Get (Header r) ''X-Ratelimit-Limit''))\<rparr>"

text \<open>
  \<open>withSignature\<close>. The loop over the sorted keys extends the source string of the hash
  and the values of the query together.
\<close>

definition sign_key :: "string go_map \<Rightarrow> string \<Rightarrow> string \<times> Values \<Rightarrow> string \<times> Values" where
  "sign_key params k = (\<lambda>(src, v).
     (src @ '':'' @ map_index [] params k, Values_Add k (map_index [] params k) v))"

definition withSignature :: "API \<Rightarrow> string go_map option \<Rightarrow> string" where
  "withSignature this params =
     (let src0 = token this @ '':'' @ Itoa (marker this);
          (src, v) = (case params of
                        None \<Rightarrow> (src0, [])
                      | Some ps \<Rightarrow> fold (sign_key ps) (StringSlice_Sort (map fst ps)) (src0, []));
          sum = md5_Sum (bytes_of src);
          v = Values_Add ''marker'' (Itoa (marker this)) v;
          v = Values_Add ''signature'' (EncodeToString sum) v
      in Values_Encode v)"

datatype 'x error = ErrNoAccess | ErrEmptySearchID | ErrMissingParams | Foreign 'x

text \<open>\<open>checkAccess\<close>: \<^term>\<open>None\<close> is the \<open>nil\<close> error.\<close>

definition checkAccess :: "API \<Rightarrow> 'x error option" where
  "checkAccess this =
     (if token this = [] \<or> marker this = 0 then Some ErrNoAccess else None)"

text \<open>\<open>PhotoLink\<close>: \<open>%d\<close> writes an \<open>int\<close> in decimal and \<open>%s\<close> the string as it is.\<close>

definition PhotoLink :: "API \<Rightarrow> go_int \<Rightarrow> go_int \<Rightarrow> string \<Rightarrow> string" where
  "PhotoLink this hotelId photoId size' =
     ''https://photo.hotellook.com/image_v2/limit/h'' @ Itoa hotelId @ ''_'' @ Itoa photoId
       @ ''/'' @ size' @ ''.jpg''"

section \<open>The endpoints\<close>

text \<open>
  What lies outside the program is a parameter of the model: the answer of \<open>http.Get\<close>
  to a URL (an error or a response), the content of a file, the JSON decoder, the text of
  an IP address, \<open>strings.ToUpper\<close>, and whether the runtime can allocate a slice of a
  given length. The decoder is given the target it fills and the body; it returns what it
  left in the target, and its error if it failed. The type \<open>'x\<close> holds the errors of
  the network and of the decoder, \<open>'v\<close> the decoded values.
\<close>

datatype target =
    LookupResponse_new
  | PriceResponse_make go_int
  | Countries_make go_int
  | Cities_make go_int
  | Amenity_make go_int
  | HotelList_new
  | interface_new
  | SearchStart_var
  | SearchResults_var

record ('x, 'v) world =
  http_Get :: "string \<Rightarrow> 'x + Response"
  ioutil_ReadFile :: "string \<Rightarrow> 'x + string"
  Decode :: "target \<Rightarrow> string \<Rightarrow> 'v \<times> 'x option"
  IP_String :: "byte list \<Rightarrow> string"
  ToUpper :: "string \<Rightarrow> string"
  SearchID_of :: "'v \<Rightarrow> go_int"
  can_allocate :: "go_int \<Rightarrow> bool"

text \<open>
  What a method does to the world, in order: a GET request, the read of a file, and the
  start of the goroutine \<open>go this.updateRemains(r)\<close>.
\<close>

datatype event = HttpGet string | ReadFile string | Go_updateRemains Response

text \<open>
  What a method returns beside its error: \<open>nil\<close>, a pointer to a zero-valued struct
  (\<open>&T{}\<close>), the decoded value, or an \<open>int\<close>.
\<close>

datatype 'v retval = Nil_val | Zero_val | Decoded 'v | Int_val go_int

datatype ('x, 'v) outcome = Return "'v retval" "'x error option" | Panic

definition apiURL :: string where
  "apiURL = ''http://engine.hotellook.com/api/v2/''"

text \<open>
  \<open>make([]T, n)\<close> with a length that is not a constant: a run-time panic when \<open>n\<close> is
  negative or more than the runtime can allocate. The slices of constant length 1 and 2
  that other methods make are always allocated.
\<close>

definition make_panics :: "('x, 'v) world \<Rightarrow> go_int \<Rightarrow> bool" where
  "make_panics w n = (sint n < 0 \<or> \<not> can_allocate w n)"

record LookupRequest =
  Query :: string
  Lang :: string
  LookFor :: string
  Limit :: go_int
  ConvertCase :: go_int

definition Lookup_values :: "LookupRequest \<Rightarrow> Values" where
  "Lookup_values req =
     (let v = [];
          v = Values_Add ''query'' (Query req) v;
          v = Values_Add ''lang'' (Lang req) v;
          v = Values_Add ''lookFor'' (LookFor req) v;
          v = (if Limit req \<noteq> 0 then Values_Add ''limit'' (Itoa (Limit req)) v else v);
          v = (if ConvertCase req \<noteq> 0
               then Values_Add ''convertCase'' (Itoa (ConvertCase req)) v else v)
      in v)"

definition Lookup :: "('x, 'v) world \<Rightarrow> API \<Rightarrow> LookupRequest \<Rightarrow> ('x, 'v) outcome \<times> event list" where
  "Lookup w this req =
     (let url = apiURL @ ''lookup.json?'' @ Values_Encode (Lookup_values req) in
      case http_Get w url of
        Inl err \<Rightarrow> (Return Zero_val (Some (Foreign err)), [HttpGet url])
      | Inr r \<Rightarrow>
          (case Decode w LookupResponse_new (Body r) of
             (resp, Some err) \<Rightarrow>
               (Return Zero_val (Some (Foreign err)), [HttpGet url, Go_updateRemains r])
           | (resp, None) \<Rightarrow>
               (Return (Decoded resp) None, [HttpGet url, Go_updateRemains r])))"

record PriceRequest =
  Location :: string
  CheckIn :: string
  CheckOut :: string
  Currency :: string
  LocationID :: go_int
  HotelID :: go_int
  Hotel :: string
  Adults :: go_int
  Children :: go_int
  Infants :: go_int
  Limit :: go_int
  CustomerIP :: "byte list"

text \<open>The query of \<open>Price\<close>, in the order of its calls of \<open>v.Add\<close>.\<close>

definition Price_values :: "('x, 'v) world \<Rightarrow> PriceRequest \<Rightarrow> Values" where
  "Price_values w req =
     (let v = [];
          v = Values_Add ''location'' (Location req) v;
          v = Values_Add ''checkIn'' (PriceRequest.CheckIn req) v;
          v = Values_Add ''checkOut'' (PriceRequest.CheckOut req) v;
          v = (if LocationID req \<noteq> 0
               then Values_Add ''locationId'' (Itoa (LocationID req)) v else v);
          v = (if PriceRequest.HotelID req \<noteq> 0
               then Values_Add ''hotleId'' (Itoa (PriceRequest.HotelID req)) v else v);
          v = (if Hotel req \<noteq> [] then Values_Add ''hotel'' (Hotel req) v else v);
          v = (if Adults req \<noteq> 0 then Values_Add ''adults'' (Itoa (Adults req)) v else v);
          v = (if Children req \<noteq> 0
               then Values_Add ''children'' (Itoa (Children req)) v else v);
          v = (if PriceRequest.Currency req \<noteq> []
               then Values_Add ''currency'' (PriceRequest.Currency req) v else v);
          v = (if Infants req \<noteq> 0 then Values_Add ''infants'' (Itoa (Infants req)) v else v);
          v = (if PriceRequest.Limit req \<noteq> 0
               then Values_Add ''limit'' (Itoa (PriceRequest.Limit req)) v else v);
          v = Values_Add ''clientIp'' (IP_String w (CustomerIP req)) v
      in v)"

text \<open>
  \<open>Price\<close> sets a \<open>Limit\<close> of 0 to 1 in the caller's request; the length of the
  slice it makes for the decoder is the only reader of that write here.
\<close>

definition Price :: "('x, 'v) world \<Rightarrow> API \<Rightarrow> PriceRequest \<Rightarrow> ('x, 'v) outcome \<times> event list" where
  "Price w this req =
     (let url = apiURL @ ''cache.json?'' @ Values_Encode (Price_values w req);
          n = (if PriceRequest.Limit req \<noteq> 0 then PriceRequest.Limit req else 1) in
      case http_Get w url of
        Inl err \<Rightarrow> (Return Nil_val (Some (Foreign err)), [HttpGet url])
      | Inr r \<Rightarrow>
          if make_panics w n then (Panic, [HttpGet url, Go_updateRemains r])
          else
            (case Decode w (PriceResponse_make n) (Body r) of
               (resp, Some err) \<Rightarrow>
                 (Return Nil_val (Some (Foreign err)), [HttpGet url, Go_updateRemains r])
             | (resp, None) \<Rightarrow>
                 (Return (Decoded resp) None, [HttpGet url, Go_updateRemains r])))"

definition Countries :: "('x, 'v) world \<Rightarrow> API \<Rightarrow> ('x, 'v) outcome \<times> event list" where
  "Countries w this =
     (case checkAccess this of
        Some err \<Rightarrow> (Return Nil_val (Some err), [])
      | None \<Rightarrow>
          (let url = apiURL @ ''static/countries.json?'' @ withSignature this None in
           case http_Get w url of
             Inl err \<Rightarrow> (Return Nil_val (Some (Foreign err)), [HttpGet url])
           | Inr r \<Rightarrow>
               (case Decode w (Countries_make 1) (Body r) of
                  (resp, Some err) \<Rightarrow>
                    (Return Nil_val (Some ErrNoAccess), [HttpGet url, Go_updateRemains r])
                | (resp, None) \<Rightarrow>
                    (Return (Decoded resp) None, [HttpGet url, Go_updateRemains r]))))"

definition Cities :: "('x, 'v) world \<Rightarrow> API \<Rightarrow> ('x, 'v) outcome \<times> event list" where
  "Cities w this =
     (case checkAccess this of
        Some err \<Rightarrow> (Return Nil_val (Some err), [])
      | None \<Rightarrow>
          (let url = apiURL @ ''static/locations.json?'' @ withSignature this None in
           case http_Get w url of
             Inl err \<Rightarrow> (Return Nil_val (Some (Foreign err)), [HttpGet url])
           | Inr r \<Rightarrow>
               (case Decode w (Cities_make 2) (Body r) of
                  (resp, Some err) \<Rightarrow>
                    (Return Nil_val (Some ErrNoAccess), [HttpGet url, Go_updateRemains r])
                | (resp, None) \<Rightarrow>
                    (Return (Decoded resp) None, [HttpGet url, Go_updateRemains r]))))"

definition Amenities :: "('x, 'v) world \<Rightarrow> API \<Rightarrow> ('x, 'v) outcome \<times> event list" where
  "Amenities w this =
     (case checkAccess this of
        Some err \<Rightarrow> (Return Nil_val (Some err), [])
      | None \<Rightarrow>
          (let url = apiURL @ ''static/amenities.json?'' @ withSignature this None in
           case http_Get w url of
             Inl err \<Rightarrow> (Return Nil_val (Some (Foreign err)), [HttpGet url])
           | Inr r \<Rightarrow>
               (case Decode w (Amenity_make 1) (Body r) of
                  (resp, Some err) \<Rightarrow>
                    (Return Nil_val (Some ErrNoAccess), [HttpGet url, Go_updateRemains r])
                | (resp, None) \<Rightarrow>
                    (Return (Decoded resp) None, [HttpGet url, Go_updateRemains r]))))"

definition FetchHotelList :: "('x, 'v) world \<Rightarrow> API \<Rightarrow> string \<Rightarrow> ('x, 'v) outcome \<times> event list" where
  "FetchHotelList w this locationId =
     (case checkAccess this of
        Some err \<Rightarrow> (Return Nil_val (Some err), [])
      | None \<Rightarrow>
          (let v = [];
               v = map_assign ''locationId'' locationId v;
               url = apiURL @ ''static/hotels.json?'' @ withSignature this (Some v) in
           case http_Get w url of
             Inl err \<Rightarrow> (Return Zero_val (Some (Foreign err)), [HttpGet url])
           | Inr r \<Rightarrow>
               (case Decode w HotelList_new (Body r) of
                  (resp, Some err) \<Rightarrow>
                    (Return Zero_val (Some ErrNoAccess), [HttpGet url, Go_updateRemains r])
                | (resp, None) \<Rightarrow>
                    (Return (Decoded resp) None, [HttpGet url, Go_updateRemains r]))))"

definition RoomTypes :: "('x, 'v) world \<Rightarrow> API \<Rightarrow> ('x, 'v) outcome \<times> event list" where
  "RoomTypes w this =
     (let url = apiURL @ ''static/roomTypes.json?'' @ withSignature this None in
      case http_Get w url of
        Inl err \<Rightarrow> (Return Nil_val (Some (Foreign err)), [HttpGet url])
      | Inr r \<Rightarrow>
          (case Decode w interface_new (Body r) of
             (resp, Some err) \<Rightarrow>
               (Return Nil_val (Some ErrNoAccess), [HttpGet url, Go_updateRemains r])
           | (resp, None) \<Rightarrow>
               (Return (Decoded resp) None, [HttpGet url, Go_updateRemains r])))"

record SearchRequest =
  CityID :: go_int
  HotelID :: go_int
  IATA :: string
  CheckIn :: string
  CheckOut :: string
  AdultsCount :: go_int
  ChildrenCount :: go_int
  ChildAges :: "go_int \<times> go_int \<times> go_int"
  CustomerIp :: string
  Currency :: string
  Lang :: string
  WaitForResult :: go_int

definition Search_params :: "('x, 'v) world \<Rightarrow> SearchRequest \<Rightarrow> string go_map" where
  "Search_params w req =
     (case ChildAges req of (age0, age1, age2) \<Rightarrow>
      let v = [];
          v = map_assign ''cityId'' (Itoa (CityID req)) v;
          v = (if SearchRequest.HotelID req \<noteq> 0
               then map_assign ''hotelId'' (Itoa (SearchRequest.HotelID req)) v else v);
          v = (if WaitForResult req \<noteq> 0
               then map_assign ''waitForResult'' (Itoa (WaitForResult req)) v else v);
          v = (if IATA req \<noteq> [] then map_assign ''iata'' (IATA req) v else v);
          v = map_assign ''checkIn'' (SearchRequest.CheckIn req) v;
          v = map_assign ''checkOut'' (SearchRequest.CheckOut req) v;
          v = map_assign ''adultsCount'' (Itoa (AdultsCount req)) v;
          v = map_assign ''childrenCount'' (Itoa (ChildrenCount req)) v;
          v = (if ChildrenCount req \<noteq> 0 then
                 (let v = map_assign ''childAge1'' (Itoa age0) v;
                      v = (if 1 <s ChildrenCount req
                           then map_assign ''childAge2'' (Itoa age1) v else v);
                      v = (if ChildrenCount req = 3
                           then map_assign ''childAge3'' (Itoa age2) v else v)
                  in v)
               else v);
          v = map_assign ''lang'' (SearchRequest.Lang req) v;
          v = map_assign ''currency'' (ToUpper w (SearchRequest.Currency req)) v;
          v = map_assign ''customerIp'' (CustomerIp req) v
      in v)"

definition Search :: "('x, 'v) world \<Rightarrow> API \<Rightarrow> SearchRequest \<Rightarrow> ('x, 'v) outcome \<times> event list" where
  "Search w this req =
     (let url = apiURL @ ''search/start.json?'' @ withSignature this (Some (Search_params w req)) in
      case http_Get w url of
        Inl err \<Rightarrow> (Return (Int_val 0) (Some (Foreign err)), [HttpGet url])
      | Inr r \<Rightarrow>
          (case Decode w SearchStart_var (Body r) of
             (resp, Some err) \<Rightarrow>
               (Return (Int_val 0) (Some (Foreign err)), [HttpGet url, Go_updateRemains r])
           | (resp, None) \<Rightarrow>
               (Return (Int_val (SearchID_of w resp)) None, [HttpGet url, Go_updateRemains r])))"

record SearchResultsRequest =
  SearchID :: go_int
  Limit :: go_int
  Offset :: go_int
  SortBy :: string
  SortAsc :: go_int
  RoomsCount :: go_int

definition FetchSearchResults_params :: "SearchResultsRequest \<Rightarrow> string go_map" where
  "FetchSearchResults_params req =
     (let v = [];
          v = map_assign ''searchId'' (Itoa (SearchID req)) v;
          v = (if SearchResultsRequest.Limit req \<noteq> 0
               then map_assign ''limit'' (Itoa (SearchResultsRequest.Limit req)) v else v);
          v = (if Offset req \<noteq> 0 then map_assign ''offset'' (Itoa (Offset req)) v else v);
          v = (if SortBy req \<noteq> [] then map_assign ''sortBy'' (SortBy req) v else v);
          v = (if SortAsc req = - 1 then map_assign ''sortAsc'' ''0'' v else v);
          v = (if RoomsCount req \<noteq> 0
               then map_assign ''roomsCount'' (Itoa (RoomsCount req)) v else v)
      in v)"

text \<open>
  \<open>FetchSearchResults\<close>. The error of \<open>ioutil.ReadFile\<close> is dropped and the decoder is
  given the bytes read, none when the read failed; on that path the method returns the
  pointer to its variable whether the decoder failed or not.
\<close>

definition FetchSearchResults ::
  "('x, 'v) world \<Rightarrow> API \<Rightarrow> SearchResultsRequest \<Rightarrow> ('x, 'v) outcome \<times> event list" where
  "FetchSearchResults w this req =
     (if SearchID req = 0 then (Return Nil_val (Some ErrEmptySearchID), [])
      else if SearchID req = - 1 then
        (let body = (case ioutil_ReadFile w ''./test_data.json'' of
                       Inl err \<Rightarrow> [] | Inr b \<Rightarrow> b) in
         case Decode w SearchResults_var body of
           (resp, Some err) \<Rightarrow>
             (Return (Decoded resp) (Some (Foreign err)), [ReadFile ''./test_data.json''])
         | (resp, None) \<Rightarrow> (Return (Decoded resp) None, [ReadFile ''./test_data.json'']))
      else
        (let url = apiURL @ ''search/getResult.json?''
                     @ withSignature this (Some (FetchSearchResults_params req)) in
         case http_Get w url of
           Inl err \<Rightarrow> (Return Zero_val (Some (Foreign err)), [HttpGet url])
         | Inr r \<Rightarrow>
             (case Decode w SearchResults_var (Body r) of
                (resp, Some err) \<Rightarrow>
                  (Return Zero_val (Some (Foreign err)), [HttpGet url, Go_updateRemains r])
              | (resp, None) \<Rightarrow>
                  (Return (Decoded resp) None, [HttpGet url, Go_updateRemains r]))))"

section \<open>Query strings and their fields\<close>

text \<open>
  The receiver of a query string cuts it at every ampersand; the pieces are its fields.
\<close>

fun split_on :: "char \<Rightarrow> string \<Rightarrow> string list" where
  "split_on c [] = [[]]"
| "split_on c (x # xs) =
     (if x = c then [] # split_on c xs
      else (case split_on c xs of [] \<Rightarrow> [[x]] | y # ys \<Rightarrow> (x # y) # ys))"

definition query_fields :: "string \<Rightarrow> string list" where
  "query_fields q = split_on CHR ''&'' q"

text \<open>The field of a pair: key and value escaped, an equals sign between them.\<close>

definition field_of :: "string \<times> string \<Rightarrow> string" where
  "field_of kv = QueryEscape (fst kv) @ ''='' @ QueryEscape (snd kv)"

text \<open>The entries of a parameter, none for \<open>nil\<close>.\<close>

fun entries :: "string go_map option \<Rightarrow> (string \<times> string) list" where
  "entries None = []"
| "entries (Some ps) = ps"

text \<open>
  The source string of the signature as the specification words it: the token, a colon, the
  marker, and a colon and the value for each of the keys \<open>ks\<close>.
\<close>

definition signature_source :: "API \<Rightarrow> string go_map \<Rightarrow> string list \<Rightarrow> string" where
  "signature_source this ps ks =
     token this @ '':'' @ Itoa (marker this) @ concat (map (\<lambda>k. '':'' @ map_index [] ps k) ks)"

text \<open>The key of a field: what stands before its first equals sign.\<close>

definition field_key :: "string \<Rightarrow> string" where
  "field_key f = takeWhile (\<lambda>c. c \<noteq> CHR ''='') f"

text \<open>The keys that \<open>Price\<close> passes to \<open>v.Add\<close>.\<close>

definition Price_names :: "string list" where
  "Price_names = [''location'', ''checkIn'', ''checkOut'', ''locationId'', ''hotleId'', ''hotel'',
                  ''adults'', ''children'', ''currency'', ''infants'', ''limit'', ''clientIp'']"

text \<open>What \<open>Values.Encode\<close> does to its buffer for one field.\<close>

definition amp_add :: "string \<Rightarrow> string \<Rightarrow> string" where
  "amp_add buf f = (if buf \<noteq> [] then buf @ ''&'' else buf) @ f"

text \<open>The fields of the values stored under the keys \<open>ks\<close>, in that order.\<close>

definition Values_fields :: "Values \<Rightarrow> string list \<Rightarrow> string list" where
  "Values_fields v ks = concat (map (\<lambda>k. map (\<lambda>x. field_of (k, x)) (map_index [] v k)) ks)"

text \<open>The bytes \<open>FetchSearchResults\<close> has after it read the fixture file.\<close>

definition fixture_body :: "('x, 'v) world \<Rightarrow> string" where
  "fixture_body w =
     (case ioutil_ReadFile w ''./test_data.json'' of Inl err \<Rightarrow> [] | Inr b \<Rightarrow> b)"

section \<open>Two worlds to run the methods in\<close>

text \<open>
  A response that is no JSON, as a server sends it to a caller it does not know, and a
  decoder that takes a body for JSON when it starts with a brace or a bracket.
\<close>

definition html_response :: Response where
  "html_response =
     \<lparr>Header = [(''X-Ratelimit-Remaining'', [''59'']), (''X-Ratelimit-Limit'', [''60''])],
      Body = ''<html>Unauthorized</html>''\<rparr>"

definition sample_Decode :: "target \<Rightarrow> string \<Rightarrow> string \<times> string option" where
  "sample_Decode t b =
     (case b of
        [] \<Rightarrow> ([], Some ''unexpected end of JSON input'')
      | c # _ \<Rightarrow> if c = CHR ''{'' \<or> c = CHR ''['' then (b, None)
                 else ([], Some ''invalid character''))"

text \<open>A world whose network is down and whose fixture file is missing.\<close>

definition world_down :: "(string, string) world" where
  "world_down =
     \<lparr>http_Get = (\<lambda>url. Inl ''connection refused''),
      ioutil_ReadFile = (\<lambda>path. Inl ''no such file or directory''),
      Decode = sample_Decode,
      IP_String = (\<lambda>ip. ''<nil>''),
      ToUpper = (\<lambda>s. s),
      SearchID_of = (\<lambda>v. 0),
      can_allocate = (\<lambda>n. sint n \<le> 1000)\<rparr>"

text \<open>A world whose server answers every request with the response above.\<close>

definition world_html :: "(string, string) world" where
  "world_html =
     \<lparr>http_Get = (\<lambda>url. Inr html_response),
      ioutil_ReadFile = (\<lambda>path. Inr ''{\"status\":\"ok\",\"result\":[]}''),
      Decode = sample_Decode,
      IP_String = (\<lambda>ip. ''<nil>''),
      ToUpper = (\<lambda>s. s),
      SearchID_of = (\<lambda>v. 0),
      can_allocate = (\<lambda>n. sint n \<le> 1000)\<rparr>"

section \<open>What the library functions produce\<close>

lemma map_index_assign:
  "map_index z (map_assign k v m) k' = (if k' = k then v else map_index z m k')"
  by (induction m) (auto simp add: map_index_def)

lemma keys_assign: "fst ` set (map_assign k v m) = insert k (fst ` set m)"
  by (induction m) auto

lemma map_index_absent: "k \<notin> fst ` set m \<Longrightarrow> map_index z m k = z"
proof -
  assume "k \<notin> fst ` set m"
  then have "map_of m k = None" by (simp add: map_of_eq_None_iff)
  then show ?thesis by (simp add: map_index_def)
qed

lemma Encode_pair_fold:
  "foldl (Encode_pair ke) buf xs = foldl amp_add buf (map (\<lambda>x. ke @ ''='' @ QueryEscape x) xs)"
  by (induction xs arbitrary: buf) (simp_all add: Encode_pair_def amp_add_def)

lemma Encode_key_fold:
  "foldl (Encode_key v) buf ks = foldl amp_add buf (Values_fields v ks)"
  by (induction ks arbitrary: buf)
     (simp_all add: Encode_key_def Encode_pair_fold Values_fields_def field_of_def)

lemma Values_Encode_fields:
  "Values_Encode v = foldl amp_add [] (Values_fields v (sort (map fst v)))"
  by (simp add: Values_Encode_def Encode_key_fold Values_fields_def)

lemma split_on_not_Nil: "split_on c xs \<noteq> []"
  by (induction xs) (auto split: list.splits)

lemma split_on_append: "split_on c (a @ c # b) = split_on c a @ split_on c b"
proof (induction a)
  case Nil
  show ?case by simp
next
  case (Cons x a)
  obtain y ys where "split_on c a = y # ys"
    using split_on_not_Nil [of c a] by (cases "split_on c a") auto
  with Cons show ?case by simp
qed

lemma split_on_none: "c \<notin> set f \<Longrightarrow> split_on c f = [f]"
  by (induction f) auto

lemma amp_add_Nil: "amp_add [] f = f"
  by (simp add: amp_add_def)

lemma amp_add_Cons: "buf \<noteq> [] \<Longrightarrow> amp_add buf f = buf @ CHR ''&'' # f"
  by (simp add: amp_add_def)

lemma split_on_amp_fold:
  assumes "\<And>f. f \<in> set fs \<Longrightarrow> f \<noteq> [] \<and> c \<notin> set f" and "c = CHR ''&''"
  shows "fs \<noteq> [] \<Longrightarrow> foldl amp_add [] fs \<noteq> [] \<and> split_on c (foldl amp_add [] fs) = fs"
  using assms(1)
proof (induction fs rule: rev_induct)
  case Nil
  then show ?case by simp
next
  case (snoc f fs)
  have f: "f \<noteq> []" "c \<notin> set f" using snoc.prems(2) [of f] by simp_all
  show ?case
  proof (cases "fs = []")
    case True
    then show ?thesis using f by (simp add: amp_add_Nil split_on_none)
  next
    case False
    then have ih: "foldl amp_add [] fs \<noteq> []" "split_on c (foldl amp_add [] fs) = fs"
      using snoc.IH snoc.prems(2) by simp_all
    then show ?thesis
      using f assms(2) by (simp add: amp_add_Cons split_on_append split_on_none)
  qed
qed

lemma of_char_less_256: "of_char c < (256::nat)"
proof -
  have "of_char c mod 256 < (256::nat)" by (rule mod_less_divisor) simp
  then show ?thesis by simp
qed

lemma upperhex_nth: "i < 16 \<Longrightarrow> upperhex ! i \<in> set upperhex"
  by (rule nth_mem) (simp add: upperhex_def)

lemma escape_char_set:
  "x \<in> set (escape_char c) \<Longrightarrow> x \<noteq> CHR ''&'' \<and> x \<noteq> CHR ''=''"
proof -
  assume x: "x \<in> set (escape_char c)"
  have "(of_char c :: nat) div 16 < 16"
    using of_char_less_256 [of c] by arith
  then have h1: "upperhex ! (of_char c div 16) \<in> set upperhex"
    by (rule upperhex_nth)
  have h2: "upperhex ! (of_char c mod 16) \<in> set upperhex"
    by (intro upperhex_nth) simp
  have h3: "\<And>y. y \<in> set upperhex \<Longrightarrow> y \<noteq> CHR ''&'' \<and> y \<noteq> CHR ''=''"
    by (auto simp add: upperhex_def)
  have h4: "\<not> shouldEscape c \<Longrightarrow> c \<noteq> CHR ''&'' \<and> c \<noteq> CHR ''=''"
    by (auto simp add: shouldEscape_def)
  show ?thesis
    using x h3 [OF h1] h3 [OF h2] h4
    by (auto simp add: escape_char_def split: if_splits)
qed

lemma QueryEscape_set:
  "x \<in> set (QueryEscape s) \<Longrightarrow> x \<noteq> CHR ''&'' \<and> x \<noteq> CHR ''=''"
  by (auto simp add: QueryEscape_def dest: escape_char_set)

lemma field_of_ok: "field_of kv \<noteq> [] \<and> CHR ''&'' \<notin> set (field_of kv)"
  using QueryEscape_set by (auto simp add: field_of_def)

lemma query_fields_Encode:
  assumes "Values_fields v (sort (map fst v)) \<noteq> []"
  shows "query_fields (Values_Encode v) = Values_fields v (sort (map fst v))"
proof -
  have "\<And>f. f \<in> set (Values_fields v (sort (map fst v))) \<Longrightarrow> f \<noteq> [] \<and> CHR ''&'' \<notin> set f"
    using field_of_ok by (auto simp add: Values_fields_def)
  from split_on_amp_fold [OF this refl assms] show ?thesis
    by (simp add: query_fields_def Values_Encode_fields)
qed

lemma set_Values_fields:
  "set (Values_fields v (sort (map fst v))) = field_of ` {(k, x). x \<in> set (map_index [] v k)}"
proof -
  have "\<And>k x. x \<in> set (map_index [] v k) \<Longrightarrow> k \<in> fst ` set v"
    using map_index_absent [of _ v "[]"] by fastforce
  then show ?thesis
    by (auto simp add: Values_fields_def image_iff) force+
qed


lemma digit_char_set: "d < 10 \<Longrightarrow> digit_char d \<in> set ''0123456789''"
  unfolding digit_char_def by (rule nth_mem) simp

lemma utoa_set: "c \<in> set (utoa n) \<Longrightarrow> c \<in> set ''0123456789''"
proof (induction n rule: utoa.induct)
  case (1 n)
  show ?case
  proof (cases "n < 10")
    case True
    then have "nat n < 10" by simp
    from digit_char_set [OF this] True "1.prems" show ?thesis
      by (simp add: utoa.simps [of n])
  next
    case False
    have "nat (n mod 10) < 10" by simp
    from digit_char_set [OF this] False "1.prems" "1.IH" show ?thesis
      by (auto simp add: utoa.simps [of n])
  qed
qed

lemma Itoa_set:
  assumes "c \<in> set (Itoa i)"
  shows "c \<in> set ''-0123456789''"
proof (cases "sint i < 0")
  case True
  then have "c = CHR ''-'' \<or> c \<in> set (utoa (- sint i))"
    using assms by (simp add: Itoa_def Itoa_int_def)
  then show ?thesis
  proof
    assume "c = CHR ''-''"
    then show ?thesis by simp
  next
    assume "c \<in> set (utoa (- sint i))"
    then have "c \<in> set ''0123456789''" by (rule utoa_set)
    then show ?thesis by simp
  qed
next
  case False
  then have "c \<in> set (utoa (sint i))"
    using assms by (simp add: Itoa_def Itoa_int_def)
  then have "c \<in> set ''0123456789''" by (rule utoa_set)
  then show ?thesis by simp
qed

lemma QueryEscape_id: "(\<And>c. c \<in> set s \<Longrightarrow> \<not> shouldEscape c) \<Longrightarrow> QueryEscape s = s"
  by (induction s) (simp_all add: QueryEscape_def escape_char_def)

lemma unescaped_digits: "list_all (\<lambda>c. \<not> shouldEscape c) ''-0123456789''"
  by code_simp

lemma unescaped_hextable: "list_all (\<lambda>c. \<not> shouldEscape c) hextable"
  by code_simp

lemma QueryEscape_Itoa: "QueryEscape (Itoa i) = Itoa i"
proof (rule QueryEscape_id)
  fix c assume "c \<in> set (Itoa i)"
  then have "c \<in> set ''-0123456789''" by (rule Itoa_set)
  with unescaped_digits show "\<not> shouldEscape c" by (simp add: list_all_iff del: set_simps)
qed

lemma hextable_nth: "i < 16 \<Longrightarrow> hextable ! i \<in> set hextable"
  by (rule nth_mem) (simp add: hextable_def)

lemma byte_nibbles: "unat (drop_bit 4 (v :: byte)) < 16" "unat (v AND 0x0f) < 16"
proof -
  have "unat v < 2 ^ LENGTH(8)" by (rule unsigned_less)
  then have "unat v < 256" by simp
  moreover have "unat (drop_bit 4 v) = unat v div 16"
    by (simp add: drop_bit_eq_div unat_div)
  ultimately show "unat (drop_bit 4 v) < 16" by arith
  have "v AND 0x0f \<le> 0x0f" by (rule word_and_le1)
  then have "unat (v AND 0x0f) \<le> unat (0x0f :: byte)" by (simp add: word_le_nat_alt)
  then show "unat (v AND 0x0f) < 16" by simp
qed

lemma EncodeToString_set: "c \<in> set (EncodeToString bs) \<Longrightarrow> c \<in> set hextable"
  using hextable_nth byte_nibbles by (auto simp add: EncodeToString_def)

lemma QueryEscape_hex: "QueryEscape (EncodeToString bs) = EncodeToString bs"
proof (rule QueryEscape_id)
  fix c assume "c \<in> set (EncodeToString bs)"
  then have "c \<in> set hextable" by (rule EncodeToString_set)
  with unescaped_hextable show "\<not> shouldEscape c" by (simp add: list_all_iff)
qed

lemma QueryEscape_names:
  "QueryEscape ''marker'' = ''marker''" "QueryEscape ''signature'' = ''signature''"
  by code_simp+

lemma field_of_marker: "field_of (''marker'', Itoa i) = ''marker='' @ Itoa i"
  by (simp add: field_of_def QueryEscape_names QueryEscape_Itoa)

lemma field_of_signature:
  "field_of (''signature'', EncodeToString bs) = ''signature='' @ EncodeToString bs"
  by (simp add: field_of_def QueryEscape_names QueryEscape_hex)

lemma sort_marker_signature: "sort [''marker'', ''signature''] = [''marker'', ''signature'']"
  by code_simp

lemma withSignature_nil:
  "withSignature this None =
     ''marker='' @ Itoa (marker this) @ ''&signature=''
       @ EncodeToString (md5_Sum (bytes_of (token this @ '':'' @ Itoa (marker this))))"
proof -
  let ?m = "Itoa (marker this)"
  let ?h = "EncodeToString (md5_Sum (bytes_of (token this @ '':'' @ ?m)))"
  let ?v = "[(''marker'', [?m]), (''signature'', [?h])]"
  have v: "withSignature this None = Values_Encode ?v"
    by (simp add: withSignature_def Values_Add_def map_index_def)
  have "Values_fields ?v (sort (map fst ?v)) = [field_of (''marker'', ?m), field_of (''signature'', ?h)]"
    by (simp add: sort_marker_signature Values_fields_def map_index_def)
  then have "Values_Encode ?v = ''marker='' @ ?m @ ''&signature='' @ ?h"
    by (simp add: Values_Encode_fields amp_add_def field_of_marker field_of_signature)
  with v show ?thesis by simp
qed

lemma md5_test:
  "EncodeToString (md5_Sum (bytes_of ''bqadagadoqadjmcocciox1grdvp3ag:35290'')) =
     ''abdab6a981233bdaf156a5abc17cb382''"
  by code_simp

lemma Itoa_35290: "Itoa 35290 = ''35290''"
  by code_simp


section \<open>The signature of the empty mapping\<close>

text \<open>
  C3: for every token and marker, \<open>withSignature\<close> of the \<open>nil\<close> mapping is
  \<open>marker=\<close>, the marker in decimal, \<open>&signature=\<close> and the lower-case hexadecimal MD5
  digest of the token, a colon and the marker; for the client of marker 35290 and token
  \<open>bqadagadoqadjmcocciox1grdvp3ag\<close> it is
  \<open>marker=35290&signature=abdab6a981233bdaf156a5abc17cb382\<close>.
\<close>

theorem withSignature_empty_params:
  "withSignature this None =
     ''marker='' @ Itoa (marker this) @ ''&signature=''
       @ EncodeToString (md5_Sum (bytes_of (token this @ '':'' @ Itoa (marker this))))
   \<and> withSignature (SetToken ''bqadagadoqadjmcocciox1grdvp3ag'' (the (NewAPI 35290))) None =
       ''marker=35290&signature=abdab6a981233bdaf156a5abc17cb382''"
  by (simp add: withSignature_nil NewAPI_def SetToken_def Itoa_35290 md5_test)

section \<open>The query string of a signed request\<close>

lemma map_index_Values_Add:
  "map_index [] (Values_Add k x v) k' =
     (if k' = k then map_index [] v k @ [x] else map_index [] v k')"
  by (simp add: Values_Add_def map_index_assign)

lemma keys_Values_Add: "fst ` set (Values_Add k x v) = insert k (fst ` set v)"
  by (simp add: Values_Add_def keys_assign)

lemma pairs_Values_Add:
  "{(k', y). y \<in> set (map_index [] (Values_Add k x v) k')} =
     insert (k, x) {(k', y). y \<in> set (map_index [] v k')}"
  by (auto simp add: map_index_Values_Add split: if_splits)

lemma fold_sign_key:
  "fold (sign_key ps) ks (s, v) =
     (s @ concat (map (\<lambda>k. '':'' @ map_index [] ps k) ks),
      fold (\<lambda>k. Values_Add k (map_index [] ps k)) ks v)"
  by (induction ks arbitrary: s v) (simp_all add: sign_key_def)

lemma pairs_fold_Add:
  "{(k', y). y \<in> set (map_index [] (fold (\<lambda>k. Values_Add k (f k)) ks v) k')} =
     {(k', y). y \<in> set (map_index [] v k')} \<union> (\<lambda>k. (k, f k)) ` set ks"
proof (induction ks arbitrary: v)
  case Nil
  show ?case by simp
next
  case (Cons k ks)
  show ?case
    unfolding fold_simps Cons.IH pairs_Values_Add by auto
qed

lemma entries_as_pairs:
  assumes "distinct (map fst ps)"
  shows "(\<lambda>k. (k, map_index [] ps k)) ` fst ` set ps = set ps"
proof -
  have "\<And>k x. (k, x) \<in> set ps \<Longrightarrow> map_index [] ps k = x"
    using assms by (simp add: map_index_def)
  then show ?thesis by (force simp add: image_iff)
qed

lemma sorted_keys_unique:
  assumes "sorted_wrt (<) ks" and "set ks = fst ` set ps" and "distinct (map fst ps)"
  shows "ks = sort (map fst ps)"
proof (rule sorted_distinct_set_unique)
  show "sorted ks" "distinct ks" using assms(1) by (simp_all add: strict_sorted_iff)
  show "sorted (sort (map fst ps))" by simp
  show "distinct (sort (map fst ps))" using assms(3) by simp
  show "set ks = set (sort (map fst ps))" using assms(2) by simp
qed

lemma withSignature_Values:
  "withSignature this params =
     Values_Encode
       (Values_Add ''signature''
          (EncodeToString (md5_Sum (bytes_of
             (signature_source this (entries params) (sort (map fst (entries params)))))))
          (Values_Add ''marker'' (Itoa (marker this))
             (fold (\<lambda>k. Values_Add k (map_index [] (entries params) k))
                (sort (map fst (entries params))) [])))"
  by (cases params)
     (simp_all add: withSignature_def fold_sign_key StringSlice_Sort_def signature_source_def)

text \<open>
  C1: for every token, marker and mapping of parameters, the result of \<open>withSignature\<close>
  is a query string whose fields are the escaped entries of the mapping, \<open>marker=\<close> with
  the marker, and \<open>signature=\<close> with the lower-case hexadecimal MD5 digest of the source
  string: token, colon, marker, and a colon and the value for every key in ascending order.
  It holds for a marker of 0 as well.
\<close>

theorem withSignature_query:
  assumes "distinct (map fst (entries params))"
    and "sorted_wrt (<) ks" and "set ks = fst ` set (entries params)"
  shows "set (query_fields (withSignature this params)) =
           field_of ` set (entries params)
           \<union> {''marker='' @ Itoa (marker this),
               ''signature='' @ EncodeToString (md5_Sum (bytes_of
                  (signature_source this (entries params) ks)))}"
proof -
  let ?ps = "entries params"
  let ?h = "EncodeToString (md5_Sum (bytes_of (signature_source this ?ps ks)))"
  let ?v0 = "fold (\<lambda>k. Values_Add k (map_index [] ?ps k)) (sort (map fst ?ps)) []"
  let ?v = "Values_Add ''signature'' ?h (Values_Add ''marker'' (Itoa (marker this)) ?v0)"
  have ks: "ks = sort (map fst ?ps)"
    using assms by (intro sorted_keys_unique)
  have w: "withSignature this params = Values_Encode ?v"
    by (simp add: withSignature_Values ks)
  have pairs: "{(k, y). y \<in> set (map_index [] ?v k)} =
                 insert (''signature'', ?h) (insert (''marker'', Itoa (marker this)) (set ?ps))"
    unfolding pairs_Values_Add pairs_fold_Add
    using entries_as_pairs [OF assms(1)] by (simp add: map_index_def)
  have fields: "set (Values_fields ?v (sort (map fst ?v))) =
                  field_of ` set ?ps \<union> {''marker='' @ Itoa (marker this), ''signature='' @ ?h}"
    unfolding set_Values_fields pairs
    by (simp add: field_of_marker field_of_signature insert_commute Un_commute)
  have "set (Values_fields ?v (sort (map fst ?v))) \<noteq> {}"
    unfolding fields by simp
  then have "Values_fields ?v (sort (map fst ?v)) \<noteq> []"
    by (rule contrapos_nn) simp
  from query_fields_Encode [OF this] fields w show ?thesis by simp
qed


lemma md5_sample:
  "EncodeToString (md5_Sum (bytes_of ''bqadagadoqadjmcocciox1grdvp3ag:35290:en:1:both:moscow'')) =
     ''7386867331120289e76303d286d1758b''"
  by code_simp

lemma sample_fields:
  "map field_of [(''query'', ''moscow''), (''lang'', ''en''), (''limit'', ''1''), (''lookFor'', ''both'')]
     = [''query=moscow'', ''lang=en'', ''limit=1'', ''lookFor=both'']"
  by code_simp

lemma sample_sorted: "sorted_wrt (<) [''lang'', ''limit'', ''lookFor'', ''query'']"
  by code_simp

theorem withSignature_query_witness:
  "distinct (map fst (entries (Some [(''query'', ''moscow''), (''lang'', ''en''), (''limit'', ''1''), (''lookFor'', ''both'')])))
   \<and> sorted_wrt (<) [''lang'', ''limit'', ''lookFor'', ''query'']
   \<and> set [''lang'', ''limit'', ''lookFor'', ''query'']
       = fst ` set (entries (Some [(''query'', ''moscow''), (''lang'', ''en''), (''limit'', ''1''), (''lookFor'', ''both'')]))
   \<and> set (query_fields (withSignature
          \<lparr>token = ''bqadagadoqadjmcocciox1grdvp3ag'', marker = 35290, remains = 0, limit = 0\<rparr>
          (Some [(''query'', ''moscow''), (''lang'', ''en''), (''limit'', ''1''), (''lookFor'', ''both'')])))
       = {''query=moscow'', ''lang=en'', ''limit=1'', ''lookFor=both'', ''marker=35290'',
          ''signature=7386867331120289e76303d286d1758b''}"
proof -
  let ?ps = "[(''query'', ''moscow''), (''lang'', ''en''), (''limit'', ''1''), (''lookFor'', ''both'')]"
  let ?ks = "[''lang'', ''limit'', ''lookFor'', ''query'']"
  let ?a = "\<lparr>token = ''bqadagadoqadjmcocciox1grdvp3ag'', marker = 35290, remains = 0, limit = 0\<rparr>"
  have h1: "distinct (map fst (entries (Some ?ps)))" by simp
  have h2: "sorted_wrt (<) ?ks" by (rule sample_sorted)
  have h3: "set ?ks = fst ` set (entries (Some ?ps))" by auto
  have src: "signature_source ?a (entries (Some ?ps)) ?ks =
               ''bqadagadoqadjmcocciox1grdvp3ag:35290:en:1:both:moscow''"
    by (simp add: signature_source_def Itoa_35290 map_index_def)
  have f: "field_of ` set (entries (Some ?ps)) = set (map field_of ?ps)" by simp
  show ?thesis
    using h1 h2 h3 withSignature_query [OF h1 h2 h3, of ?a]
    unfolding src f sample_fields md5_sample
    by (simp add: Itoa_35290 insert_commute)
qed

section \<open>The order of the entries\<close>

text \<open>
  C4: two mappings with the same entries, which \<open>range\<close> visits in different orders,
  give the same result of \<open>withSignature\<close>, signature and query string alike.
\<close>

theorem withSignature_order:
  assumes "distinct (map fst ps)" and "distinct (map fst qs)" and "set ps = set qs"
  shows "withSignature this (Some ps) = withSignature this (Some qs)"
proof -
  have "map_of ps = map_of qs"
    using assms by (simp add: map_of_inject_set)
  then have idx: "map_index [] ps = map_index [] qs"
    by (simp add: map_index_def fun_eq_iff)
  then have key: "sign_key ps = sign_key qs"
    by (simp add: sign_key_def fun_eq_iff)
  have "set (map fst ps) = set (map fst qs)"
    using assms(3) by simp
  then have "sort (map fst ps) = sort (map fst qs)"
    using assms(1,2) by (intro sorted_distinct_set_unique) simp_all
  with key show ?thesis
    by (simp add: withSignature_def StringSlice_Sort_def)
qed

theorem withSignature_order_witness:
  "distinct (map fst [(''query'', ''moscow''), (''lang'', ''en''), (''limit'', ''1'')])
   \<and> distinct (map fst [(''limit'', ''1''), (''query'', ''moscow''), (''lang'', ''en'')])
   \<and> set [(''query'', ''moscow''), (''lang'', ''en''), (''limit'', ''1'')]
       = set [(''limit'', ''1''), (''query'', ''moscow''), (''lang'', ''en'')]
   \<and> withSignature \<lparr>token = ''t'', marker = 7, remains = 0, limit = 0\<rparr>
         (Some [(''query'', ''moscow''), (''lang'', ''en''), (''limit'', ''1'')])
       = withSignature \<lparr>token = ''t'', marker = 7, remains = 0, limit = 0\<rparr>
         (Some [(''limit'', ''1''), (''query'', ''moscow''), (''lang'', ''en'')])"
proof -
  have h1: "distinct (map fst [(''query'', ''moscow''), (''lang'', ''en''), (''limit'', ''1'')])"
    by simp
  have h2: "distinct (map fst [(''limit'', ''1''), (''query'', ''moscow''), (''lang'', ''en'')])"
    by simp
  have h3: "set [(''query'', ''moscow''), (''lang'', ''en''), (''limit'', ''1'')]
              = set [(''limit'', ''1''), (''query'', ''moscow''), (''lang'', ''en'')]"
    by auto
  from h1 h2 h3 withSignature_order [OF h1 h2 h3] show ?thesis by blast
qed

section \<open>The query of a price request\<close>

lemma world_html_sel:
  "http_Get world_html = (\<lambda>url. Inr html_response)"
  "Decode world_html = sample_Decode"
  "IP_String world_html = (\<lambda>ip. ''<nil>'')"
  "can_allocate world_html = (\<lambda>n. sint n \<le> 1000)"
  by (simp_all add: world_html_def)

lemma field_key_field_of: "field_key (field_of (k, x)) = QueryEscape k"
proof -
  have "\<And>c. c \<in> set (QueryEscape k) \<Longrightarrow> c \<noteq> CHR ''=''"
    using QueryEscape_set by blast
  then show ?thesis
    by (simp add: field_key_def field_of_def takeWhile_append2)
qed

lemma map_index_Nil: "map_index z [] k = z"
  by (simp add: map_index_def)

lemma keys_cond_Add:
  "fst ` set (if c then Values_Add k x v else v) = {k'. c \<and> k' = k} \<union> fst ` set v"
  by (auto simp add: keys_Values_Add)

lemma map_index_cond_Add:
  "map_index [] (if c then Values_Add k x v else v) k' =
     (if c \<and> k' = k then map_index [] v k @ [x] else map_index [] v k')"
  by (simp add: map_index_Values_Add)

lemma Price_keys:
  assumes "k \<in> fst ` set (Price_values w req)"
  shows "k \<in> set Price_names" and "k = ''hotleId'' \<Longrightarrow> PriceRequest.HotelID req \<noteq> 0"
  using assms
  by (auto simp add: Price_values_def Let_def keys_cond_Add keys_Values_Add Price_names_def)

lemma Price_hotleId:
  "map_index [] (Price_values w req) ''hotleId'' =
     (if PriceRequest.HotelID req \<noteq> 0 then [Itoa (PriceRequest.HotelID req)] else [])"
  by (simp add: Price_values_def Let_def map_index_cond_Add map_index_Values_Add map_index_Nil)

lemma Price_names_escape: "list_all (\<lambda>k. QueryEscape k = k \<and> k \<noteq> ''hotelId'') Price_names"
  by code_simp

lemma QueryEscape_hotleId: "QueryEscape ''hotleId'' = ''hotleId''"
  by code_simp

lemma Price_fields:
  "query_fields (Values_Encode (Price_values w req)) =
     Values_fields (Price_values w req) (sort (map fst (Price_values w req)))"
proof (rule query_fields_Encode)
  let ?v = "Price_values w req"
  have "map_index [] ?v ''location'' \<noteq> []"
    by (simp add: Price_values_def Let_def map_index_cond_Add map_index_Values_Add map_index_Nil)
  then obtain y ys where "map_index [] ?v ''location'' = y # ys"
    by (cases "map_index [] ?v ''location''") auto
  then have "(''location'', y) \<in> {(k, x). x \<in> set (map_index [] ?v k)}"
    by simp
  then have "field_of ` {(k, x). x \<in> set (map_index [] ?v k)} \<noteq> {}"
    by blast
  then have "set (Values_fields ?v (sort (map fst ?v))) \<noteq> {}"
    unfolding set_Values_fields .
  then show "Values_fields ?v (sort (map fst ?v)) \<noteq> []"
    by (rule contrapos_nn) simp
qed

lemma Price_field_cases:
  assumes "f \<in> set (query_fields (Values_Encode (Price_values w req)))"
  obtains k x where "f = field_of (k, x)" and "x \<in> set (map_index [] (Price_values w req) k)"
    and "k \<in> fst ` set (Price_values w req)"
proof -
  from assms have "f \<in> field_of ` {(k, x). x \<in> set (map_index [] (Price_values w req) k)}"
    by (simp only: Price_fields set_Values_fields)
  then obtain k x where kx: "f = field_of (k, x)" "x \<in> set (map_index [] (Price_values w req) k)"
    by auto
  have "k \<in> fst ` set (Price_values w req)"
  proof (rule ccontr)
    assume "k \<notin> fst ` set (Price_values w req)"
    then have "map_index [] (Price_values w req) k = []" by (rule map_index_absent)
    with kx(2) show False by simp
  qed
  with kx that show thesis by blast
qed

lemma Price_calls:
  "\<exists>rest. snd (Price w this req) =
      HttpGet (apiURL @ ''cache.json?'' @ Values_Encode (Price_values w req)) # rest"
  by (auto simp add: Price_def Let_def split: sum.splits prod.splits option.splits)

text \<open>
  C10: the query string that \<open>Price\<close> requests carries a hotel identifier that is not 0
  in the field \<open>hotleId=\<close>, and has no field of that key when the identifier is 0; it
  never has a field of key \<open>hotelId\<close>.
\<close>

theorem Price_hotel_key:
  "(\<exists>rest. snd (Price w this req) =
      HttpGet (apiURL @ ''cache.json?'' @ Values_Encode (Price_values w req)) # rest)
   \<and> (PriceRequest.HotelID req \<noteq> 0 \<longrightarrow>
        ''hotleId='' @ Itoa (PriceRequest.HotelID req)
          \<in> set (query_fields (Values_Encode (Price_values w req))))
   \<and> (\<forall>f \<in> set (query_fields (Values_Encode (Price_values w req))).
        field_key f = ''hotleId'' \<longrightarrow>
          PriceRequest.HotelID req \<noteq> 0 \<and> f = ''hotleId='' @ Itoa (PriceRequest.HotelID req))
   \<and> (\<forall>f \<in> set (query_fields (Values_Encode (Price_values w req))).
        field_key f \<noteq> ''hotelId'')"
proof (intro conjI impI ballI)
  let ?v = "Price_values w req"
  let ?h = "PriceRequest.HotelID req"
  show "\<exists>rest. snd (Price w this req) =
      HttpGet (apiURL @ ''cache.json?'' @ Values_Encode ?v) # rest"
    by (rule Price_calls)
  have esc: "\<And>k. k \<in> set Price_names \<Longrightarrow> QueryEscape k = k \<and> k \<noteq> ''hotelId''"
    using Price_names_escape by (simp add: list_all_iff)
  {
    assume "?h \<noteq> 0"
    then have "(''hotleId'', Itoa ?h) \<in> {(k, x). x \<in> set (map_index [] ?v k)}"
      by (simp add: Price_hotleId)
    then have "field_of (''hotleId'', Itoa ?h) \<in> set (query_fields (Values_Encode ?v))"
      unfolding Price_fields set_Values_fields by (rule imageI)
    then show "''hotleId='' @ Itoa ?h \<in> set (query_fields (Values_Encode ?v))"
      by (simp add: field_of_def QueryEscape_hotleId QueryEscape_Itoa)
  }
  {
    fix f assume f: "f \<in> set (query_fields (Values_Encode ?v))"
    from f obtain k x where kx: "f = field_of (k, x)" "x \<in> set (map_index [] ?v k)"
      "k \<in> fst ` set ?v"
      by (rule Price_field_cases)
    have key: "field_key f = k" and k: "k \<noteq> ''hotelId''"
      using esc [OF Price_keys(1) [OF kx(3)]] kx(1) by (simp_all add: field_key_field_of)
    show "field_key f \<noteq> ''hotelId''" using key k by simp
    {
      assume "field_key f = ''hotleId''"
      then have k': "k = ''hotleId''" using key by simp
      then have h: "?h \<noteq> 0" using Price_keys(2) [OF kx(3)] by simp
      with kx(2) k' have "x = Itoa ?h" by (simp add: Price_hotleId)
      with kx(1) k' have "f = ''hotleId='' @ Itoa ?h"
        by (simp add: field_of_def QueryEscape_hotleId QueryEscape_Itoa)
      with h show "?h \<noteq> 0" and "f = ''hotleId='' @ Itoa ?h" by simp_all
    }
  }
qed


lemma Price_sample_aux:
  "Values_Encode
     (Values_Add ''clientIp'' ''<nil>''
       (Values_Add ''limit'' (Itoa 10)
         (Values_Add ''currency'' ''rub''
           (Values_Add ''hotleId'' (Itoa 42)
             (Values_Add ''checkOut'' ''2016-12-17''
               (Values_Add ''checkIn'' ''2016-12-10''
                 (Values_Add ''location'' ''MOW'' [])))))))
   = ''checkIn=2016-12-10&checkOut=2016-12-17&clientIp=%3Cnil%3E&currency=rub&hotleId=42&limit=10&location=MOW''"
  by code_simp

lemma Price_sample:
  "Values_Encode (Price_values world_html
     \<lparr>Location = ''MOW'', CheckIn = ''2016-12-10'', CheckOut = ''2016-12-17'', Currency = ''rub'',
      LocationID = 0, HotelID = 42, Hotel = [], Adults = 0, Children = 0, Infants = 0,
      Limit = 10, CustomerIP = []\<rparr>)
   = ''checkIn=2016-12-10&checkOut=2016-12-17&clientIp=%3Cnil%3E&currency=rub&hotleId=42&limit=10&location=MOW''"
  by (simp add: Price_values_def world_html_sel Price_sample_aux)

lemma Price_sample_keys:
  "map field_key (query_fields
     ''checkIn=2016-12-10&checkOut=2016-12-17&clientIp=%3Cnil%3E&currency=rub&hotleId=42&limit=10&location=MOW'')
   = [''checkIn'', ''checkOut'', ''clientIp'', ''currency'', ''hotleId'', ''limit'', ''location'']"
  by code_simp

lemma Itoa_42: "Itoa 42 = ''42''"
  by code_simp

theorem Price_hotel_key_witness:
  "PriceRequest.HotelID
     \<lparr>Location = ''MOW'', CheckIn = ''2016-12-10'', CheckOut = ''2016-12-17'', Currency = ''rub'',
      LocationID = 0, HotelID = 42, Hotel = [], Adults = 0, Children = 0, Infants = 0,
      Limit = 10, CustomerIP = []\<rparr> \<noteq> 0
   \<and> ''hotleId=42'' \<in> set (query_fields
         ''checkIn=2016-12-10&checkOut=2016-12-17&clientIp=%3Cnil%3E&currency=rub&hotleId=42&limit=10&location=MOW'')
   \<and> map field_key (query_fields (Values_Encode (Price_values world_html
         \<lparr>Location = ''MOW'', CheckIn = ''2016-12-10'', CheckOut = ''2016-12-17'', Currency = ''rub'',
          LocationID = 0, HotelID = 42, Hotel = [], Adults = 0, Children = 0, Infants = 0,
          Limit = 10, CustomerIP = []\<rparr>)))
       = [''checkIn'', ''checkOut'', ''clientIp'', ''currency'', ''hotleId'', ''limit'', ''location'']"
  using Price_hotel_key [of world_html "\<lparr>token = ''t'', marker = 35290, remains = 0, limit = 0\<rparr>"
     "\<lparr>Location = ''MOW'', CheckIn = ''2016-12-10'', CheckOut = ''2016-12-17'', Currency = ''rub'',
      LocationID = 0, HotelID = 42, Hotel = [], Adults = 0, Children = 0, Infants = 0,
      Limit = 10, CustomerIP = []\<rparr>"]
  unfolding Price_sample Price_sample_keys
  by (simp add: Itoa_42)

section \<open>The counters of the rate limit\<close>

lemma Atoi_59: "Atoi ''59'' = (59, None)"
  by code_simp

lemma Atoi_60: "Atoi ''60'' = (60, None)"
  by code_simp

lemma Atoi_overflow:
  "Atoi ''999999999999999999999x'' = (word_of_int (2 ^ 63 - 1), Some ErrRange)"
  by code_simp

text \<open>
  No method reads the counters: a client with other counters calls \<open>withSignature\<close> and
  \<open>checkAccess\<close> with the same result, and so every exported method.
\<close>

lemma withSignature_counters:
  "withSignature (this\<lparr>remains := a, limit := b\<rparr>) params = withSignature this params"
  by (simp add: withSignature_def)

lemma checkAccess_counters:
  "checkAccess (this\<lparr>remains := a, limit := b\<rparr>) = checkAccess this"
  by (simp add: checkAccess_def)

lemma endpoints_counters:
  "Lookup w (this\<lparr>remains := a, limit := b\<rparr>) lreq = Lookup w this lreq"
  "Price w (this\<lparr>remains := a, limit := b\<rparr>) preq = Price w this preq"
  "Countries w (this\<lparr>remains := a, limit := b\<rparr>) = Countries w this"
  "Cities w (this\<lparr>remains := a, limit := b\<rparr>) = Cities w this"
  "Amenities w (this\<lparr>remains := a, limit := b\<rparr>) = Amenities w this"
  "FetchHotelList w (this\<lparr>remains := a, limit := b\<rparr>) locationId = FetchHotelList w this locationId"
  "RoomTypes w (this\<lparr>remains := a, limit := b\<rparr>) = RoomTypes w this"
  "Search w (this\<lparr>remains := a, limit := b\<rparr>) sreq = Search w this sreq"
  "FetchSearchResults w (this\<lparr>remains := a, limit := b\<rparr>) rreq = FetchSearchResults w this rreq"
  "PhotoLink (this\<lparr>remains := a, limit := b\<rparr>) hotelId photoId sz = PhotoLink this hotelId photoId sz"
  "SetToken t (this\<lparr>remains := a, limit := b\<rparr>) = (SetToken t this)\<lparr>remains := a, limit := b\<rparr>"
  by (simp_all only: Lookup_def Price_def Countries_def Cities_def Amenities_def
        FetchHotelList_def RoomTypes_def Search_def FetchSearchResults_def PhotoLink_def
        withSignature_counters checkAccess_counters)
     (simp add: SetToken_def)

lemma updateRemains_counters:
  "\<exists>a b. updateRemains r this = this\<lparr>remains := a, limit := b\<rparr>"
  by (auto simp add: updateRemains_def)

text \<open>
  C9: in every state of a client, also one in which \<open>updateRemains\<close> has stored what it
  read in the headers \<open>X-Ratelimit-Remaining\<close> and \<open>X-Ratelimit-Limit\<close>,
  \<open>RequestsRemains\<close> and \<open>RequestsLimit\<close> return 0, and the counters cannot be
  observed through the exported methods: what \<open>updateRemains\<close> does is a change of the
  two counters, and under any change of the two counters every exported method returns
  the same and does the same to the world (\<open>SetToken\<close> leaves the same client but for
  the counters).
\<close>

theorem counters_unobservable:
  "RequestsRemains this = 0 \<and> RequestsLimit this = 0
   \<and> RequestsRemains (updateRemains r this) = 0
   \<and> RequestsLimit (updateRemains r this) = 0
   \<and> RequestsRemains (this\<lparr>remains := a, limit := b\<rparr>) = 0
   \<and> RequestsLimit (this\<lparr>remains := a, limit := b\<rparr>) = 0
   \<and> (\<exists>a' b'. updateRemains r this = this\<lparr>remains := a', limit := b'\<rparr>)
   \<and> Lookup w (this\<lparr>remains := a, limit := b\<rparr>) lreq = Lookup w this lreq
   \<and> Price w (this\<lparr>remains := a, limit := b\<rparr>) preq = Price w this preq
   \<and> Countries w (this\<lparr>remains := a, limit := b\<rparr>) = Countries w this
   \<and> Cities w (this\<lparr>remains := a, limit := b\<rparr>) = Cities w this
   \<and> Amenities w (this\<lparr>remains := a, limit := b\<rparr>) = Amenities w this
   \<and> FetchHotelList w (this\<lparr>remains := a, limit := b\<rparr>) locationId
       = FetchHotelList w this locationId
   \<and> RoomTypes w (this\<lparr>remains := a, limit := b\<rparr>) = RoomTypes w this
   \<and> Search w (this\<lparr>remains := a, limit := b\<rparr>) sreq = Search w this sreq
   \<and> FetchSearchResults w (this\<lparr>remains := a, limit := b\<rparr>) rreq
       = FetchSearchResults w this rreq
   \<and> PhotoLink (this\<lparr>remains := a, limit := b\<rparr>) hotelId photoId sz
       = PhotoLink this hotelId photoId sz
   \<and> SetToken t (this\<lparr>remains := a, limit := b\<rparr>)
       = (SetToken t this)\<lparr>remains := a, limit := b\<rparr>"
proof -
  have acc: "\<And>x. RequestsRemains x = 0 \<and> RequestsLimit x = 0"
    by (simp add: RequestsRemains_def RequestsLimit_def)
  show ?thesis
    by (simp only: acc endpoints_counters updateRemains_counters simp_thms)
qed

lemma updateRemains_sample:
  "updateRemains html_response \<lparr>token = ''t'', marker = 35290, remains = 0, limit = 0\<rparr>
     = \<lparr>token = ''t'', marker = 35290, remains = 59, limit = 60\<rparr>"
  by (simp add: updateRemains_def html_response_def Header_Get_def map_index_def Atoi_59 Atoi_60)

theorem counters_unobservable_witness:
  "remains (updateRemains html_response \<lparr>token = ''t'', marker = 35290, remains = 0, limit = 0\<rparr>) = 59
   \<and> limit (updateRemains html_response \<lparr>token = ''t'', marker = 35290, remains = 0, limit = 0\<rparr>) = 60
   \<and> RequestsRemains (updateRemains html_response \<lparr>token = ''t'', marker = 35290, remains = 0, limit = 0\<rparr>) = 0
   \<and> RequestsLimit (updateRemains html_response \<lparr>token = ''t'', marker = 35290, remains = 0, limit = 0\<rparr>) = 0
   \<and> Countries world_html (updateRemains html_response \<lparr>token = ''t'', marker = 35290, remains = 0, limit = 0\<rparr>)
       = Countries world_html \<lparr>token = ''t'', marker = 35290, remains = 0, limit = 0\<rparr>
   \<and> RoomTypes world_down (updateRemains html_response \<lparr>token = ''t'', marker = 35290, remains = 0, limit = 0\<rparr>)
       = RoomTypes world_down \<lparr>token = ''t'', marker = 35290, remains = 0, limit = 0\<rparr>"
  using counters_unobservable [where this = "\<lparr>token = ''t'', marker = 35290, remains = 0, limit = 0\<rparr>"
          and r = html_response and a = 59 and b = 60 and w = world_html]
        counters_unobservable [where this = "\<lparr>token = ''t'', marker = 35290, remains = 0, limit = 0\<rparr>"
          and r = html_response and a = 59 and b = 60 and w = world_down]
  by (simp add: updateRemains_sample)

section \<open>The results of a search\<close>

text \<open>
  C7: for every request whose \<open>SearchID\<close> is 0, whatever its other fields,
  \<open>FetchSearchResults\<close> returns \<open>ErrEmptySearchID\<close> and has done nothing to the world:
  no request, no read, no parameter of a query.
\<close>

theorem FetchSearchResults_empty_id:
  "SearchID req = 0 \<Longrightarrow>
   FetchSearchResults w this req = (Return Nil_val (Some ErrEmptySearchID), [])"
  by (simp add: FetchSearchResults_def)

theorem FetchSearchResults_empty_id_witness:
  "SearchID \<lparr>SearchID = 0, Limit = 10, Offset = 5, SortBy = ''price'', SortAsc = - 1, RoomsCount = 2\<rparr> = 0
   \<and> FetchSearchResults world_html \<lparr>token = ''t'', marker = 35290, remains = 0, limit = 0\<rparr>
        \<lparr>SearchID = 0, Limit = 10, Offset = 5, SortBy = ''price'', SortAsc = - 1, RoomsCount = 2\<rparr>
       = (Return Nil_val (Some ErrEmptySearchID), [])"
  using FetchSearchResults_empty_id [of "\<lparr>SearchID = 0, Limit = 10, Offset = 5, SortBy = ''price'', SortAsc = - 1, RoomsCount = 2\<rparr>"
          world_html "\<lparr>token = ''t'', marker = 35290, remains = 0, limit = 0\<rparr>"]
  by simp

text \<open>
  C6: for every request whose \<open>SearchID\<close> is -1, whatever its other fields,
  \<open>FetchSearchResults\<close> reads the file \<open>./test_data.json\<close>, returns what the decoder
  makes of its bytes, and sends no request.
\<close>

theorem FetchSearchResults_fixture:
  assumes "SearchID req = - 1"
  shows "FetchSearchResults w this req =
           (Return (Decoded (fst (Decode w SearchResults_var (fixture_body w))))
                   (map_option Foreign (snd (Decode w SearchResults_var (fixture_body w)))),
            [ReadFile ''./test_data.json''])
         \<and> (\<nexists>url. HttpGet url \<in> set (snd (FetchSearchResults w this req)))"
proof -
  obtain resp err where d: "Decode w SearchResults_var (fixture_body w) = (resp, err)"
    by (cases "Decode w SearchResults_var (fixture_body w)")
  have "FetchSearchResults w this req =
          (Return (Decoded resp) (map_option Foreign err), [ReadFile ''./test_data.json''])"
    using assms d by (cases err) (simp_all add: FetchSearchResults_def fixture_body_def)
  then show ?thesis using d by simp
qed

theorem FetchSearchResults_fixture_witness:
  "SearchID \<lparr>SearchID = - 1, Limit = 10, Offset = 5, SortBy = ''price'', SortAsc = 1, RoomsCount = 2\<rparr> = - 1
   \<and> FetchSearchResults world_html \<lparr>token = [], marker = 1234, remains = 0, limit = 0\<rparr>
        \<lparr>SearchID = - 1, Limit = 10, Offset = 5, SortBy = ''price'', SortAsc = 1, RoomsCount = 2\<rparr>
       = (Return (Decoded ''{\"status\":\"ok\",\"result\":[]}'') None, [ReadFile ''./test_data.json''])
   \<and> FetchSearchResults world_down \<lparr>token = [], marker = 1234, remains = 0, limit = 0\<rparr>
        \<lparr>SearchID = - 1, Limit = 10, Offset = 5, SortBy = ''price'', SortAsc = 1, RoomsCount = 2\<rparr>
       = (Return (Decoded []) (Some (Foreign ''unexpected end of JSON input'')), [ReadFile ''./test_data.json''])"
  using FetchSearchResults_fixture [of "\<lparr>SearchID = - 1, Limit = 10, Offset = 5, SortBy = ''price'', SortAsc = 1, RoomsCount = 2\<rparr>"
          world_html "\<lparr>token = [], marker = 1234, remains = 0, limit = 0\<rparr>"]
        FetchSearchResults_fixture [of "\<lparr>SearchID = - 1, Limit = 10, Offset = 5, SortBy = ''price'', SortAsc = 1, RoomsCount = 2\<rparr>"
          world_down "\<lparr>token = [], marker = 1234, remains = 0, limit = 0\<rparr>"]
  by (simp add: fixture_body_def world_html_def world_down_def sample_Decode_def)

section \<open>The gate of the closed methods\<close>

text \<open>
  A client without a token, or with marker 0, gets \<open>ErrNoAccess\<close> from \<open>Countries\<close>,
  \<open>Cities\<close>, \<open>Amenities\<close> and \<open>FetchHotelList\<close>, and these send no request.
\<close>

lemma closed_gate:
  assumes "token this = [] \<or> marker this = 0"
  shows "Countries w this = (Return Nil_val (Some ErrNoAccess), [])"
    and "Cities w this = (Return Nil_val (Some ErrNoAccess), [])"
    and "Amenities w this = (Return Nil_val (Some ErrNoAccess), [])"
    and "FetchHotelList w this locationId = (Return Nil_val (Some ErrNoAccess), [])"
  using assms
  by (auto simp add: Countries_def Cities_def Amenities_def FetchHotelList_def checkAccess_def)

text \<open>\<open>RoomTypes\<close> sends its request whatever the client is.\<close>

lemma RoomTypes_calls:
  "\<exists>rest. snd (RoomTypes w this) =
      HttpGet (apiURL @ ''static/roomTypes.json?'' @ withSignature this None) # rest"
  by (auto simp add: RoomTypes_def Let_def split: sum.splits prod.splits option.splits)

lemma world_down_sel:
  "http_Get world_down = (\<lambda>url. Inl ''connection refused'')"
  by (simp add: world_down_def)

lemma md5_no_token:
  "EncodeToString (md5_Sum (bytes_of '':35290'')) = ''c778c86ec7f722e40573e5624679a7e7''"
  by code_simp

lemma withSignature_no_token:
  "withSignature \<lparr>token = [], marker = 35290, remains = 0, limit = 0\<rparr> None =
     ''marker=35290&signature=c778c86ec7f722e40573e5624679a7e7''"
  by (simp add: withSignature_nil Itoa_35290 md5_no_token)

text \<open>
  C2: a client whose token is empty or whose marker is 0 gets \<open>ErrNoAccess\<close> from every
  closed method, \<open>RoomTypes\<close> among them, and no request is sent. Here the client has
  marker 35290 and no token, so that \<open>checkAccess\<close> gives \<open>ErrNoAccess\<close>;
  \<open>RoomTypes\<close> sends its request all the same, and where the network is down it returns
  the error of the network.
\<close>

theorem RoomTypes_without_token:
  "(checkAccess \<lparr>token = [], marker = 35290, remains = 0, limit = 0\<rparr> :: string error option)
     = Some ErrNoAccess
   \<and> RoomTypes world_down \<lparr>token = [], marker = 35290, remains = 0, limit = 0\<rparr>
       = (Return Nil_val (Some (Foreign ''connection refused'')),
          [HttpGet ''http://engine.hotellook.com/api/v2/static/roomTypes.json?marker=35290&signature=c778c86ec7f722e40573e5624679a7e7''])
   \<and> RoomTypes world_html \<lparr>token = [], marker = 35290, remains = 0, limit = 0\<rparr>
       = (Return Nil_val (Some ErrNoAccess),
          [HttpGet ''http://engine.hotellook.com/api/v2/static/roomTypes.json?marker=35290&signature=c778c86ec7f722e40573e5624679a7e7'',
           Go_updateRemains html_response])"
  by (simp add: checkAccess_def RoomTypes_def withSignature_no_token world_down_sel
        world_html_sel Let_def apiURL_def sample_Decode_def html_response_def)

section \<open>A body that is no JSON\<close>

text \<open>
  When the body of the response fails to decode, the closed methods return
  \<open>ErrNoAccess\<close> and the public ones the error of the decoder; \<open>Price\<close> does so when
  the slice for its result can be made.
\<close>

lemma Lookup_undecodable:
  assumes "http_Get w (apiURL @ ''lookup.json?'' @ Values_Encode (Lookup_values req)) = Inr r"
    and "Decode w LookupResponse_new (Body r) = (v, Some e)"
  shows "fst (Lookup w this req) = Return Zero_val (Some (Foreign e))"
  using assms by (simp add: Lookup_def Let_def)

lemma Price_undecodable:
  assumes "http_Get w (apiURL @ ''cache.json?'' @ Values_Encode (Price_values w req)) = Inr r"
    and "n = (if PriceRequest.Limit req \<noteq> 0 then PriceRequest.Limit req else 1)"
    and "\<not> make_panics w n"
    and "Decode w (PriceResponse_make n) (Body r) = (v, Some e)"
  shows "fst (Price w this req) = Return Nil_val (Some (Foreign e))"
  using assms by (simp add: Price_def Let_def)

text \<open>With a negative \<open>Limit\<close> and a response, \<open>Price\<close> panics whatever the body is.\<close>

lemma Price_panics:
  assumes "http_Get w (apiURL @ ''cache.json?'' @ Values_Encode (Price_values w req)) = Inr r"
    and "sint (PriceRequest.Limit req) < 0"
  shows "fst (Price w this req) = Panic"
proof -
  have "PriceRequest.Limit req \<noteq> 0"
    using assms(2) by auto
  then show ?thesis
    using assms by (simp add: Price_def Let_def make_panics_def)
qed

lemma Search_undecodable:
  assumes "http_Get w (apiURL @ ''search/start.json?''
             @ withSignature this (Some (Search_params w req))) = Inr r"
    and "Decode w SearchStart_var (Body r) = (v, Some e)"
  shows "fst (Search w this req) = Return (Int_val 0) (Some (Foreign e))"
  using assms by (simp add: Search_def Let_def)

lemma FetchSearchResults_undecodable:
  assumes "SearchID req \<noteq> 0" and "SearchID req \<noteq> - 1"
    and "http_Get w (apiURL @ ''search/getResult.json?''
             @ withSignature this (Some (FetchSearchResults_params req))) = Inr r"
    and "Decode w SearchResults_var (Body r) = (v, Some e)"
  shows "fst (FetchSearchResults w this req) = Return Zero_val (Some (Foreign e))"
  using assms by (simp add: FetchSearchResults_def Let_def)

lemma closed_undecodable:
  assumes "token this \<noteq> []" and "marker this \<noteq> 0"
    and "\<And>url. http_Get w url = Inr r" and "\<And>t. snd (Decode w t (Body r)) = Some e"
  shows "fst (Countries w this) = Return Nil_val (Some ErrNoAccess)"
    and "fst (Cities w this) = Return Nil_val (Some ErrNoAccess)"
    and "fst (Amenities w this) = Return Nil_val (Some ErrNoAccess)"
    and "fst (FetchHotelList w this locationId) = Return Zero_val (Some ErrNoAccess)"
    and "fst (RoomTypes w this) = Return Nil_val (Some ErrNoAccess)"
proof -
  have d: "\<And>t. \<exists>v. Decode w t (Body r) = (v, Some e)"
    using assms(4) by (metis prod.collapse)
  obtain v1 where "Decode w (Countries_make 1) (Body r) = (v1, Some e)"
    using d by blast
  then show "fst (Countries w this) = Return Nil_val (Some ErrNoAccess)"
    using assms(1,2,3) by (simp add: Countries_def checkAccess_def Let_def)
  obtain v2 where "Decode w (Cities_make 2) (Body r) = (v2, Some e)"
    using d by blast
  then show "fst (Cities w this) = Return Nil_val (Some ErrNoAccess)"
    using assms(1,2,3) by (simp add: Cities_def checkAccess_def Let_def)
  obtain v3 where "Decode w (Amenity_make 1) (Body r) = (v3, Some e)"
    using d by blast
  then show "fst (Amenities w this) = Return Nil_val (Some ErrNoAccess)"
    using assms(1,2,3) by (simp add: Amenities_def checkAccess_def Let_def)
  obtain v4 where "Decode w HotelList_new (Body r) = (v4, Some e)"
    using d by blast
  then show "fst (FetchHotelList w this locationId) = Return Zero_val (Some ErrNoAccess)"
    using assms(1,2,3) by (simp add: FetchHotelList_def checkAccess_def Let_def)
  obtain v5 where "Decode w interface_new (Body r) = (v5, Some e)"
    using d by blast
  then show "fst (RoomTypes w this) = Return Nil_val (Some ErrNoAccess)"
    using assms(3) by (simp add: RoomTypes_def Let_def)
qed

lemma Price_url_aux:
  "Values_Encode
     (Values_Add ''clientIp'' ''<nil>''
       (Values_Add ''limit'' (Itoa (- 1))
         (Values_Add ''checkOut'' []
           (Values_Add ''checkIn'' []
             (Values_Add ''location'' [] [])))))
   = ''checkIn=&checkOut=&clientIp=%3Cnil%3E&limit=-1&location=''"
  by code_simp

lemma Price_url:
  "Values_Encode (Price_values world_html
     \<lparr>Location = [], CheckIn = [], CheckOut = [], Currency = [], LocationID = 0, HotelID = 0,
      Hotel = [], Adults = 0, Children = 0, Infants = 0, Limit = - 1, CustomerIP = []\<rparr>)
   = ''checkIn=&checkOut=&clientIp=%3Cnil%3E&limit=-1&location=''"
  apply (simp add: Price_values_def world_html_def)
  apply (simp add: Price_url_aux)
  done

text \<open>
  C5: when the body of the response fails to decode, every closed method returns
  \<open>ErrNoAccess\<close> and every public method, \<open>Price\<close> among them, returns the error of
  the decoder. Here the request of \<open>Price\<close> has \<open>Limit\<close> -1 and the body is not JSON:
  \<open>make([]PriceResponse, req.Limit)\<close> panics before the decoder is called.
\<close>

theorem Price_negative_Limit:
  "Price world_html \<lparr>token = ''t'', marker = 35290, remains = 0, limit = 0\<rparr>
     \<lparr>Location = [], CheckIn = [], CheckOut = [], Currency = [], LocationID = 0, HotelID = 0,
      Hotel = [], Adults = 0, Children = 0, Infants = 0, Limit = - 1, CustomerIP = []\<rparr>
   = (Panic,
      [HttpGet ''http://engine.hotellook.com/api/v2/cache.json?checkIn=&checkOut=&clientIp=%3Cnil%3E&limit=-1&location='',
       Go_updateRemains html_response])
   \<and> Decode world_html (PriceResponse_make (- 1)) (Body html_response)
       = ([], Some ''invalid character'')"
  by (simp add: Price_def Price_url Let_def apiURL_def make_panics_def world_html_sel
        html_response_def sample_Decode_def)

section \<open>Construction of a client\<close>

text \<open>
  C8: for every marker \<open>m\<close>, \<open>NewAPI m\<close> is \<open>nil\<close> when \<open>m\<close> is 0; for every other
  \<open>m\<close>, negative ones included, it is a client whose marker is \<open>m\<close>, whose token is the
  empty string and whose counters are 0.
\<close>

theorem NewAPI_spec:
  "(m = 0 \<longrightarrow> NewAPI m = None) \<and>
   (m \<noteq> 0 \<longrightarrow> NewAPI m = Some \<lparr>token = [], marker = m, remains = 0, limit = 0\<rparr>
             \<and> (\<exists>a. NewAPI m = Some a \<and> marker a = m \<and> token a = []))"
  by (simp add: NewAPI_def)

theorem NewAPI_spec_witness:
  "NewAPI 0 = None
   \<and> (\<exists>a. NewAPI 35290 = Some a \<and> marker a = 35290 \<and> token a = [])
   \<and> sint (- 7 :: go_int) < 0
   \<and> (\<exists>a. NewAPI (- 7) = Some a \<and> marker a = - 7 \<and> token a = [])"
  using NewAPI_spec [of 0] NewAPI_spec [of 35290] NewAPI_spec [of "- 7"]
  by simp

end
